theory Spec2Isabelle
  imports Main
begin

section \<open>Errors and responses\<close>

text \<open>
  A handler of \<^verbatim>\<open>app.py\<close> either returns a value (HTTP 200) or raises.
  \<open>HTTPException status detail\<close> is the exception the handlers raise themselves;
  \<open>PersistenceError\<close> is an exception of the store that no handler catches
  (it reaches the client as a 500). A handler is a function from the state it
  reads to its outcome and the state it leaves: a raise leaves the state it found,
  since the session is closed without a commit.
\<close>

datatype error = HTTPException int string | PersistenceError

section \<open>The activity registry\<close>

text \<open>
  The module-level dictionary \<^verbatim>\<open>activities\<close> maps an activity name to a dictionary
  with the four keys below.
\<close>

record activity =
  description :: string
  schedule :: string
  max_participants :: int
  participants :: "string list"

type_synonym registry = "string \<rightharpoonup> activity"

definition activities :: registry where
  "activities = map_of
    [(''Chess Club'',
        \<lparr>description = ''Learn strategies and compete in chess tournaments'',
         schedule = ''Fridays, 3:30 PM - 5:00 PM'',
         max_participants = 12,
         participants = [''michael@mergington.edu'', ''daniel@mergington.edu'']\<rparr>),
     (''Programming Class'',
        \<lparr>description = ''Learn programming fundamentals and build software projects'',
         schedule = ''Tuesdays and Thursdays, 3:30 PM - 4:30 PM'',
         max_participants = 20,
         participants = [''emma@mergington.edu'', ''sophia@mergington.edu'']\<rparr>),
     (''Gym Class'',
        \<lparr>description = ''Physical education and sports activities'',
         schedule = ''Mondays, Wednesdays, Fridays, 2:00 PM - 3:00 PM'',
         max_participants = 30,
         participants = [''john@mergington.edu'', ''olivia@mergington.edu'']\<rparr>),
     (''Soccer Team'',
        \<lparr>description = ''Join the school soccer team and compete in matches'',
         schedule = ''Tuesdays and Thursdays, 4:00 PM - 5:30 PM'',
         max_participants = 22,
         participants = [''liam@mergington.edu'', ''noah@mergington.edu'']\<rparr>),
     (''Basketball Team'',
        \<lparr>description = ''Practice and play basketball with the school team'',
         schedule = ''Wednesdays and Fridays, 3:30 PM - 5:00 PM'',
         max_participants = 15,
         participants = [''ava@mergington.edu'', ''mia@mergington.edu'']\<rparr>),
     (''Art Club'',
        \<lparr>description = ''Explore your creativity through painting and drawing'',
         schedule = ''Thursdays, 3:30 PM - 5:00 PM'',
         max_participants = 15,
         participants = [''amelia@mergington.edu'', ''harper@mergington.edu'']\<rparr>),
     (''Drama Club'',
        \<lparr>description = ''Act, direct, and produce plays and performances'',
         schedule = ''Mondays and Wednesdays, 4:00 PM - 5:30 PM'',
         max_participants = 20,
         participants = [''ella@mergington.edu'', ''scarlett@mergington.edu'']\<rparr>),
     (''Math Club'',
        \<lparr>description = ''Solve challenging problems and participate in math competitions'',
         schedule = ''Tuesdays, 3:30 PM - 4:30 PM'',
         max_participants = 10,
         participants = [''james@mergington.edu'', ''benjamin@mergington.edu'']\<rparr>),
     (''Debate Team'',
        \<lparr>description = ''Develop public speaking and argumentation skills'',
         schedule = ''Fridays, 4:00 PM - 5:30 PM'',
         max_participants = 12,
         participants = [''charlotte@mergington.edu'', ''henry@mergington.edu'']\<rparr>)]"

text \<open>
  \<^verbatim>\<open>signup_for_activity\<close>: 404 when the name is no key of the dictionary, 400 when
  \<^verbatim>\<open>email in activity["participants"]\<close>, otherwise \<^verbatim>\<open>append\<close> and the message
  \<^verbatim>\<open>f"Signed up {email} for {activity_name}"\<close>. \<open>max_participants\<close> is never read.
\<close>

definition signup_for_activity ::
  "registry \<Rightarrow> string \<Rightarrow> string \<Rightarrow> (error + string) \<times> registry" where
  "signup_for_activity acts activity_name email =
     (case acts activity_name of
        None \<Rightarrow> (Inl (HTTPException 404 ''Activity not found''), acts)
      | Some act \<Rightarrow>
          if email \<in> set (participants act)
          then (Inl (HTTPException 400 ''Student is already signed up''), acts)
          else (Inr (''Signed up '' @ email @ '' for '' @ activity_name),
                acts(activity_name \<mapsto> act\<lparr>participants := participants act @ [email]\<rparr>)))"

text \<open>
  \<^verbatim>\<open>unregister_from_activity\<close>: the same two checks, the second one negated, then
  \<^verbatim>\<open>list.remove\<close>, which deletes the first occurrence.
\<close>

definition unregister_from_activity ::
  "registry \<Rightarrow> string \<Rightarrow> string \<Rightarrow> (error + string) \<times> registry" where
  "unregister_from_activity acts activity_name email =
     (case acts activity_name of
        None \<Rightarrow> (Inl (HTTPException 404 ''Activity not found''), acts)
      | Some act \<Rightarrow>
          if email \<notin> set (participants act)
          then (Inl (HTTPException 400 ''Student is not signed up for this activity''), acts)
          else (Inr (''Unregistered '' @ email @ '' from '' @ activity_name),
                acts(activity_name \<mapsto> act\<lparr>participants := remove1 email (participants act)\<rparr>)))"

section \<open>The persisted tables\<close>

text \<open>
  \<^verbatim>\<open>datetime\<close> values: year, month, day, hour, minute, second, microsecond. Such an
  object is always truthy in Python.
\<close>

datatype datetime = Datetime nat nat nat nat nat nat nat

text \<open>The classes \<^verbatim>\<open>Event\<close> and \<^verbatim>\<open>News\<close>, field by field; \<^verbatim>\<open>Optional[T]\<close> is \<open>T option\<close>.\<close>

record event =
  event_id :: "int option"
  event_title :: string
  event_description :: "string option"
  event_location :: "string option"
  event_start_datetime :: "datetime option"
  event_end_datetime :: "datetime option"
  event_capacity :: "int option"
  event_attendees :: "string option"
  event_organizer :: "string option"
  event_tags :: "string option"

record news =
  news_id :: "int option"
  news_title :: string
  news_body :: "string option"
  news_author :: "string option"
  news_published_at :: "datetime option"
  news_tags :: "string option"

text \<open>
  The database holds the two tables, each a list of rows in insertion order, with
  the column \<open>id\<close> as primary key.
\<close>

record database =
  event_table :: "event list"
  news_table :: "news list"

text \<open>\<^verbatim>\<open>session.get(Model, i)\<close>: the row whose primary key is \<open>i\<close>, or \<^verbatim>\<open>None\<close>.\<close>

definition session_get :: "('r \<Rightarrow> int option) \<Rightarrow> 'r list \<Rightarrow> int \<Rightarrow> 'r option" where
  "session_get pk tbl i = find (\<lambda>r. pk r = Some i) tbl"

text \<open>
  \<^verbatim>\<open>session.add(obj); session.commit(); session.refresh(obj)\<close> for an object that
  \<^verbatim>\<open>session.get\<close> loaded under key \<open>i\<close> and the handler then changed: the row of key
  \<open>i\<close> is rewritten with the object's attributes. The primary key is a column like
  the others, so an object whose \<open>id\<close> was changed moves its row to the new key; the
  table refuses a null key and a key that another row holds, and the commit raises.
  \<open>None\<close> is that failure.
\<close>

definition session_update ::
  "('r \<Rightarrow> int option) \<Rightarrow> 'r list \<Rightarrow> int \<Rightarrow> 'r \<Rightarrow> 'r list option" where
  "session_update pk tbl i obj =
     (case pk obj of
        None \<Rightarrow> None
      | Some j \<Rightarrow>
          if j \<noteq> i \<and> session_get pk tbl j \<noteq> None then None
          else Some (map (\<lambda>r. if pk r = Some i then obj else r) tbl))"

text \<open>
  The key the table gives a new row that brings none: one more than the largest key
  in use, 1 in an empty table.
\<close>

definition next_rowid :: "('r \<Rightarrow> int option) \<Rightarrow> 'r list \<Rightarrow> int" where
  "next_rowid pk tbl =
     (case List.map_filter pk tbl of [] \<Rightarrow> 1 | k # ks \<Rightarrow> fold max ks k + 1)"

section \<open>Event endpoints\<close>

text \<open>
  \<^verbatim>\<open>create_event\<close>: \<^verbatim>\<open>session.add(event); session.commit(); session.refresh(event)\<close>
  for a new object. Without an \<open>id\<close> the table assigns one; with an \<open>id\<close> the row is
  inserted under it unless a row holds that key.
\<close>

definition create_event :: "database \<Rightarrow> event \<Rightarrow> (error + event) \<times> database" where
  "create_event db ev =
     (case event_id ev of
        None \<Rightarrow>
          (let row = ev\<lparr>event_id := Some (next_rowid event_id (event_table db))\<rparr>
           in (Inr row, db\<lparr>event_table := event_table db @ [row]\<rparr>))
      | Some j \<Rightarrow>
          if session_get event_id (event_table db) j \<noteq> None then (Inl PersistenceError, db)
          else (Inr ev, db\<lparr>event_table := event_table db @ [ev]\<rparr>))"

definition get_event :: "database \<Rightarrow> int \<Rightarrow> (error + event) \<times> database" where
  "get_event db i =
     (case session_get event_id (event_table db) i of
        None \<Rightarrow> (Inl (HTTPException 404 ''Event not found''), db)
      | Some ev \<Rightarrow> (Inr ev, db))"

text \<open>
  The payload of \<^verbatim>\<open>update_event\<close> is read through \<^verbatim>\<open>payload.dict(exclude_unset=True)\<close>:
  the fields the request set, each with its value. A field the request did not set is
  \<open>None\<close> here, a field it set to \<open>v\<close> is \<open>Some v\<close> (and \<open>v\<close> itself may be null).
\<close>

record event_payload =
  set_id :: "int option option"
  set_title :: "string option"
  set_description :: "string option option"
  set_location :: "string option option"
  set_start_datetime :: "datetime option option"
  set_end_datetime :: "datetime option option"
  set_capacity :: "int option option"
  set_attendees :: "string option option"
  set_organizer :: "string option option"
  set_tags :: "string option option"

text \<open>The loop \<^verbatim>\<open>for k, v in ....items(): setattr(event, k, v)\<close>.\<close>

definition setattrs :: "event_payload \<Rightarrow> event \<Rightarrow> event" where
  "setattrs p ev =
     \<lparr>event_id = (case set_id p of None \<Rightarrow> event_id ev | Some v \<Rightarrow> v),
      event_title = (case set_title p of None \<Rightarrow> event_title ev | Some v \<Rightarrow> v),
      event_description = (case set_description p of None \<Rightarrow> event_description ev | Some v \<Rightarrow> v),
      event_location = (case set_location p of None \<Rightarrow> event_location ev | Some v \<Rightarrow> v),
      event_start_datetime =
        (case set_start_datetime p of None \<Rightarrow> event_start_datetime ev | Some v \<Rightarrow> v),
      event_end_datetime =
        (case set_end_datetime p of None \<Rightarrow> event_end_datetime ev | Some v \<Rightarrow> v),
      event_capacity = (case set_capacity p of None \<Rightarrow> event_capacity ev | Some v \<Rightarrow> v),
      event_attendees = (case set_attendees p of None \<Rightarrow> event_attendees ev | Some v \<Rightarrow> v),
      event_organizer = (case set_organizer p of None \<Rightarrow> event_organizer ev | Some v \<Rightarrow> v),
      event_tags = (case set_tags p of None \<Rightarrow> event_tags ev | Some v \<Rightarrow> v)\<rparr>"

definition update_event ::
  "database \<Rightarrow> int \<Rightarrow> event_payload \<Rightarrow> (error + event) \<times> database" where
  "update_event db i payload =
     (case session_get event_id (event_table db) i of
        None \<Rightarrow> (Inl (HTTPException 404 ''Event not found''), db)
      | Some ev \<Rightarrow>
          (let ev' = setattrs payload ev in
           case session_update event_id (event_table db) i ev' of
             None \<Rightarrow> (Inl PersistenceError, db)
           | Some tbl \<Rightarrow> (Inr ev', db\<lparr>event_table := tbl\<rparr>)))"

subsection \<open>The attendee encoding\<close>

text \<open>
  \<^verbatim>\<open>s.split(",")\<close>: the segments between the commas, so one more segment than there
  are commas, and \<^verbatim>\<open>[""]\<close> for the empty string.
\<close>

fun split_comma :: "string \<Rightarrow> string list" where
  "split_comma [] = [[]]"
| "split_comma (c # cs) =
     (if c = CHR '','' then [] # split_comma cs
      else (case split_comma cs of [] \<Rightarrow> [[c]] | w # ws \<Rightarrow> (c # w) # ws))"

text \<open>\<^verbatim>\<open>_parse_attendees\<close>: \<^verbatim>\<open>not s\<close> holds for \<^verbatim>\<open>None\<close> and for the empty string.\<close>

definition parse_attendees :: "string option \<Rightarrow> string list" where
  "parse_attendees s =
     (case s of
        None \<Rightarrow> []
      | Some str \<Rightarrow> if str = [] then [] else filter (\<lambda>e. e \<noteq> []) (split_comma str))"

text \<open>\<^verbatim>\<open>_join_attendees\<close>: \<^verbatim>\<open>",".join(lst)\<close>.\<close>

fun join_attendees :: "string list \<Rightarrow> string" where
  "join_attendees [] = []"
| "join_attendees [e] = e"
| "join_attendees (e # e' # es) = e @ CHR '','' # join_attendees (e' # es)"

subsection \<open>Signup, unregister, checkin\<close>

text \<open>
  \<^verbatim>\<open>event.capacity and len(attendees) >= event.capacity\<close>: \<^verbatim>\<open>None\<close> and 0 are falsy,
  every other integer is truthy.
\<close>

definition is_full :: "int option \<Rightarrow> string list \<Rightarrow> bool" where
  "is_full capacity attendees =
     (case capacity of
        None \<Rightarrow> False
      | Some c \<Rightarrow> c \<noteq> 0 \<and> int (length attendees) \<ge> c)"

definition signup_event :: "database \<Rightarrow> int \<Rightarrow> string \<Rightarrow> (error + string) \<times> database" where
  "signup_event db i email =
     (case session_get event_id (event_table db) i of
        None \<Rightarrow> (Inl (HTTPException 404 ''Event not found''), db)
      | Some ev \<Rightarrow>
          (let attendees = parse_attendees (event_attendees ev) in
           if email \<in> set attendees then (Inl (HTTPException 400 ''Already signed up''), db)
           else if is_full (event_capacity ev) attendees
             then (Inl (HTTPException 400 ''Event is full''), db)
           else
             (let ev' = ev\<lparr>event_attendees := Some (join_attendees (attendees @ [email]))\<rparr> in
              case session_update event_id (event_table db) i ev' of
                None \<Rightarrow> (Inl PersistenceError, db)
              | Some tbl \<Rightarrow> (Inr (''Signed up '' @ email), db\<lparr>event_table := tbl\<rparr>))))"

definition unregister_event :: "database \<Rightarrow> int \<Rightarrow> string \<Rightarrow> (error + string) \<times> database" where
  "unregister_event db i email =
     (case session_get event_id (event_table db) i of
        None \<Rightarrow> (Inl (HTTPException 404 ''Event not found''), db)
      | Some ev \<Rightarrow>
          (let attendees = parse_attendees (event_attendees ev) in
           if email \<notin> set attendees then (Inl (HTTPException 400 ''Not signed up''), db)
           else
             (let ev' = ev\<lparr>event_attendees := Some (join_attendees (remove1 email attendees))\<rparr> in
              case session_update event_id (event_table db) i ev' of
                None \<Rightarrow> (Inl PersistenceError, db)
              | Some tbl \<Rightarrow> (Inr (''Unregistered '' @ email), db\<lparr>event_table := tbl\<rparr>))))"

definition checkin_event :: "database \<Rightarrow> int \<Rightarrow> string \<Rightarrow> (error + string) \<times> database" where
  "checkin_event db i email =
     (case session_get event_id (event_table db) i of
        None \<Rightarrow> (Inl (HTTPException 404 ''Event not found''), db)
      | Some ev \<Rightarrow>
          if email \<notin> set (parse_attendees (event_attendees ev))
          then (Inl (HTTPException 400 ''Student not registered''), db)
          else (Inr (''Checked in '' @ email), db))"

section \<open>News endpoints\<close>

text \<open>
  \<^verbatim>\<open>create_news\<close>: the clock is read only when \<^verbatim>\<open>not item.published_at\<close>; \<open>now\<close> is
  the value \<^verbatim>\<open>datetime.utcnow()\<close> returns at that moment. The insertion is that of
  \<open>create_event\<close>.
\<close>

definition create_news :: "datetime \<Rightarrow> database \<Rightarrow> news \<Rightarrow> (error + news) \<times> database" where
  "create_news now db item =
     (let item' = (if news_published_at item = None
                   then item\<lparr>news_published_at := Some now\<rparr> else item)
      in case news_id item' of
           None \<Rightarrow>
             (let row = item'\<lparr>news_id := Some (next_rowid news_id (news_table db))\<rparr>
              in (Inr row, db\<lparr>news_table := news_table db @ [row]\<rparr>))
         | Some j \<Rightarrow>
             if session_get news_id (news_table db) j \<noteq> None then (Inl PersistenceError, db)
             else (Inr item', db\<lparr>news_table := news_table db @ [item']\<rparr>))"

definition get_news :: "database \<Rightarrow> int \<Rightarrow> (error + news) \<times> database" where
  "get_news db i =
     (case session_get news_id (news_table db) i of
        None \<Rightarrow> (Inl (HTTPException 404 ''News not found''), db)
      | Some item \<Rightarrow> (Inr item, db))"

section \<open>Properties the statements below speak of\<close>

text \<open>An email that the comma-separated encoding can carry: it holds no comma.\<close>

definition comma_free :: "string \<Rightarrow> bool" where
  "comma_free e = (CHR '','' \<notin> set e)"

text \<open>No email twice in a participants list, and none twice in a decoded attendee list.\<close>

definition unique_participants :: "registry \<Rightarrow> bool" where
  "unique_participants acts = (\<forall>act \<in> ran acts. distinct (participants act))"

definition unique_attendees :: "database \<Rightarrow> bool" where
  "unique_attendees db =
     list_all (\<lambda>ev. distinct (parse_attendees (event_attendees ev))) (event_table db)"

text \<open>
  A field under a sparse update: the value the payload gave it when the payload set
  it, its old value otherwise.
\<close>

definition sparse_field :: "'a option \<Rightarrow> 'a \<Rightarrow> 'a \<Rightarrow> bool" where
  "sparse_field given old new = (case given of None \<Rightarrow> new = old | Some v \<Rightarrow> new = v)"

section \<open>Example data\<close>

definition blank_event :: event where
  "blank_event =
     \<lparr>event_id = None, event_title = ''Science Fair'', event_description = None,
      event_location = None, event_start_datetime = None, event_end_datetime = None,
      event_capacity = None, event_attendees = None, event_organizer = None,
      event_tags = None\<rparr>"

definition full_event :: event where
  "full_event =
     blank_event\<lparr>event_id := Some 1, event_capacity := Some 1,
                  event_attendees := Some ''a@x.edu''\<rparr>"

definition open_event :: event where
  "open_event =
     blank_event\<lparr>event_id := Some 2, event_title := ''Open Day'',
                  event_description := Some ''All welcome'', event_capacity := Some 0,
                  event_attendees := Some ''a@x.edu,b@x.edu''\<rparr>"

definition empty_db :: database where
  "empty_db = \<lparr>event_table = [], news_table = []\<rparr>"

definition example_db :: database where
  "example_db = \<lparr>event_table = [full_event, open_event], news_table = []\<rparr>"

text \<open>
  The database that holds one event, the one \<open>create_event\<close> makes of \<open>blank_event\<close>
  in the empty database, first as created and then with a given attendees string.
\<close>

definition created_db :: database where
  "created_db = \<lparr>event_table = [blank_event\<lparr>event_id := Some 1\<rparr>], news_table = []\<rparr>"

definition stored_db :: "string \<Rightarrow> database" where
  "stored_db s =
     \<lparr>event_table = [blank_event\<lparr>event_id := Some 1, event_attendees := Some s\<rparr>],
      news_table = []\<rparr>"

definition blank_payload :: event_payload where
  "blank_payload =
     \<lparr>set_id = None, set_title = None, set_description = None, set_location = None,
      set_start_datetime = None, set_end_datetime = None, set_capacity = None,
      set_attendees = None, set_organizer = None, set_tags = None\<rparr>"

definition blank_news :: news where
  "blank_news =
     \<lparr>news_id = None, news_title = ''Term dates'', news_body = None, news_author = None,
      news_published_at = None, news_tags = None\<rparr>"

section \<open>Lemmas\<close>

subsection \<open>Tables\<close>

lemma session_get_Some:
  "session_get pk tbl i = Some r \<Longrightarrow> pk r = Some i \<and> r \<in> set tbl"
  unfolding session_get_def by (induction tbl) (auto split: if_splits)

lemma session_get_None:
  "session_get pk tbl i = None \<longleftrightarrow> (\<forall>r \<in> set tbl. pk r \<noteq> Some i)"
  unfolding session_get_def by (auto simp: find_None_iff)

lemma session_get_rewritten:
  assumes "session_get pk tbl i = Some r" and "pk obj = Some k"
    and "k = i \<or> session_get pk tbl k = None"
  shows "session_get pk (map (\<lambda>x. if pk x = Some i then obj else x) tbl) k = Some obj"
  using assms unfolding session_get_def
  by (induction tbl) (auto split: if_splits)

lemma session_get_other:
  assumes "j \<noteq> i" and "pk obj \<noteq> Some j"
  shows "session_get pk (map (\<lambda>x. if pk x = Some i then obj else x) tbl) j = session_get pk tbl j"
  using assms unfolding session_get_def
  by (induction tbl) auto

lemma session_get_moved:
  assumes "pk obj \<noteq> Some i"
  shows "session_get pk (map (\<lambda>x. if pk x = Some i then obj else x) tbl) i = None"
  using assms unfolding session_get_def
  by (induction tbl) auto

lemma session_get_append:
  assumes "session_get pk tbl k = None" and "pk row = Some k"
  shows "session_get pk (tbl @ [row]) k = Some row"
  using assms unfolding session_get_def
  by (induction tbl) (auto split: if_splits)

lemma session_get_append_other:
  assumes "pk row \<noteq> Some j"
  shows "session_get pk (tbl @ [row]) j = session_get pk tbl j"
  using assms unfolding session_get_def
  by (induction tbl) (auto split: if_splits)

lemma fold_max_upper: "(a::int) \<le> fold max xs a \<and> (\<forall>x \<in> set xs. x \<le> fold max xs a)"
proof (induction xs arbitrary: a)
  case Nil
  then show ?case by simp
next
  case (Cons x xs)
  have "max x a \<le> fold max xs (max x a)" using Cons.IH by blast
  then show ?case using Cons.IH [of "max x a"] by auto
qed

lemma map_filter_mem: "r \<in> set tbl \<Longrightarrow> pk r = Some j \<Longrightarrow> j \<in> set (List.map_filter pk tbl)"
  by (induction tbl) (auto simp: List.map_filter_simps split: option.splits)

lemma next_rowid_above:
  assumes "r \<in> set tbl" and "pk r = Some j"
  shows "j < next_rowid pk tbl"
proof -
  have mem: "j \<in> set (List.map_filter pk tbl)" using assms by (rule map_filter_mem)
  then obtain k ks where ks: "List.map_filter pk tbl = k # ks"
    by (cases "List.map_filter pk tbl") auto
  have "j \<le> fold max ks k" using mem fold_max_upper [of k ks] unfolding ks by auto
  then show ?thesis by (simp add: next_rowid_def ks)
qed

lemma next_rowid_fresh: "session_get pk tbl (next_rowid pk tbl) = None"
  unfolding session_get_None using next_rowid_above [of _ tbl pk] by fastforce

lemma session_update_same:
  "pk obj = Some i \<Longrightarrow>
   session_update pk tbl i obj = Some (map (\<lambda>x. if pk x = Some i then obj else x) tbl)"
  by (simp add: session_update_def)

subsection \<open>The encoding\<close>

lemma split_comma_not_Nil: "split_comma s \<noteq> []"
  by (induction s) (auto split: list.splits)

lemma split_comma_comma_free: "w \<in> set (split_comma s) \<Longrightarrow> comma_free w"
  unfolding comma_free_def
  by (induction s arbitrary: w) (auto split: if_splits list.splits)

lemma split_comma_id: "comma_free w \<Longrightarrow> split_comma w = [w]"
  unfolding comma_free_def by (induction w) auto

lemma split_comma_append:
  "split_comma (a @ CHR '','' # b) = split_comma a @ split_comma b"
proof (induction a)
  case Nil
  then show ?case by simp
next
  case (Cons c a)
  obtain w ws where "split_comma a = w # ws"
    using split_comma_not_Nil [of a] by (cases "split_comma a") auto
  with Cons show ?case by simp
qed

lemma split_comma_join:
  "es \<noteq> [] \<Longrightarrow> split_comma (join_attendees es) = concat (map split_comma es)"
  by (induction es rule: join_attendees.induct) (simp_all add: split_comma_append)

lemma parse_attendees_filter:
  "parse_attendees (Some s) = filter (\<lambda>e. e \<noteq> []) (split_comma s)"
  by (cases s) (simp_all add: parse_attendees_def)

lemma parse_join:
  "parse_attendees (Some (join_attendees es)) =
     concat (map (\<lambda>e. filter (\<lambda>w. w \<noteq> []) (split_comma e)) es)"
proof (cases "es = []")
  case True
  then show ?thesis by (simp add: parse_attendees_def)
next
  case False
  then show ?thesis
    by (simp add: parse_attendees_filter split_comma_join filter_concat comp_def)
qed

lemma parse_attendees_members:
  "e \<in> set (parse_attendees s) \<Longrightarrow> e \<noteq> [] \<and> comma_free e"
  by (cases s) (auto simp: parse_attendees_def split_comma_comma_free split: if_splits)

lemma parse_join_clean:
  assumes "\<forall>e \<in> set es. e \<noteq> [] \<and> comma_free e"
  shows "parse_attendees (Some (join_attendees es)) = es"
proof -
  have "concat (map (\<lambda>e. filter (\<lambda>w. w \<noteq> []) (split_comma e)) es) = es"
    using assms by (induction es) (simp_all add: split_comma_id)
  then show ?thesis by (simp add: parse_join)
qed

lemma parse_join_snoc:
  assumes "\<forall>e \<in> set es. e \<noteq> [] \<and> comma_free e"
  shows "parse_attendees (Some (join_attendees (es @ [email]))) =
           es @ filter (\<lambda>w. w \<noteq> []) (split_comma email)"
proof -
  have "concat (map (\<lambda>e. filter (\<lambda>w. w \<noteq> []) (split_comma e)) es) = es"
    using assms by (induction es) (simp_all add: split_comma_id)
  then show ?thesis by (simp add: parse_join)
qed

subsection \<open>Event signup and unregister, step by step\<close>

lemma list_all_rewritten:
  "list_all P tbl \<Longrightarrow> P obj \<Longrightarrow> list_all P (map (\<lambda>x. if pk x = Some i then obj else x) tbl)"
  by (induction tbl) auto

lemma signup_event_success:
  assumes "session_get event_id (event_table db) i = Some ev"
    and "email \<notin> set (parse_attendees (event_attendees ev))"
    and "\<not> is_full (event_capacity ev) (parse_attendees (event_attendees ev))"
  shows "signup_event db i email =
    (Inr (''Signed up '' @ email),
     db\<lparr>event_table :=
          map (\<lambda>r. if event_id r = Some i
                   then ev\<lparr>event_attendees :=
                          Some (join_attendees (parse_attendees (event_attendees ev) @ [email]))\<rparr>
                   else r) (event_table db)\<rparr>)"
proof -
  have "event_id ev = Some i" using session_get_Some [OF assms(1)] by simp
  then show ?thesis using assms
    by (simp add: signup_event_def Let_def session_update_same)
qed

lemma signup_event_returns:
  assumes "signup_event db i email = (Inr m, db')"
  obtains ev where "session_get event_id (event_table db) i = Some ev"
    and "email \<notin> set (parse_attendees (event_attendees ev))"
    and "\<not> is_full (event_capacity ev) (parse_attendees (event_attendees ev))"
  using assms
  by (auto simp: signup_event_def Let_def split: option.splits if_splits)

lemma signup_event_stored:
  assumes "session_get event_id (event_table db) i = Some ev"
    and "signup_event db i email = (Inr m, db')"
  shows "session_get event_id (event_table db') i =
           Some (ev\<lparr>event_attendees :=
                   Some (join_attendees (parse_attendees (event_attendees ev) @ [email]))\<rparr>)"
proof -
  obtain ev0 where ev0: "session_get event_id (event_table db) i = Some ev0"
    and fresh: "email \<notin> set (parse_attendees (event_attendees ev0))"
    and room: "\<not> is_full (event_capacity ev0) (parse_attendees (event_attendees ev0))"
    using assms(2) by (rule signup_event_returns)
  have same: "ev0 = ev" using ev0 assms(1) by simp
  have key: "event_id ev = Some i" using session_get_Some [OF assms(1)] by simp
  have "db' = db\<lparr>event_table :=
          map (\<lambda>r. if event_id r = Some i
                   then ev\<lparr>event_attendees :=
                          Some (join_attendees (parse_attendees (event_attendees ev) @ [email]))\<rparr>
                   else r) (event_table db)\<rparr>"
    using signup_event_success [OF ev0 fresh room] assms(2) same by simp
  then show ?thesis
    using session_get_rewritten [OF assms(1), of
        "ev\<lparr>event_attendees :=
             Some (join_attendees (parse_attendees (event_attendees ev) @ [email]))\<rparr>" i] key
    by simp
qed

lemma parse_attendees_clean:
  "\<forall>e \<in> set (parse_attendees s). e \<noteq> [] \<and> comma_free e"
  using parse_attendees_members by blast

lemma parse_after_signup:
  "parse_attendees (Some (join_attendees (parse_attendees s @ [email]))) =
     parse_attendees s @ filter (\<lambda>w. w \<noteq> []) (split_comma email)"
  by (rule parse_join_snoc) (rule parse_attendees_clean)

lemma parse_after_clean_signup:
  assumes "email \<noteq> []" and "comma_free email"
  shows "parse_attendees (Some (join_attendees (parse_attendees s @ [email]))) =
     parse_attendees s @ [email]"
  using assms by (simp add: parse_after_signup split_comma_id)

lemma parse_after_remove:
  "parse_attendees (Some (join_attendees (remove1 email (parse_attendees s)))) =
     remove1 email (parse_attendees s)"
proof (rule parse_join_clean)
  show "\<forall>e\<in>set (remove1 email (parse_attendees s)). e \<noteq> [] \<and> comma_free e"
    using parse_attendees_clean [of s] set_remove1_subset [of email "parse_attendees s"]
    by blast
qed

lemma create_event_stored:
  assumes "create_event db ev = (Inr ev0, db0)"
  obtains i where "event_id ev0 = Some i"
    and "session_get event_id (event_table db0) i = Some ev0"
    and "event_attendees ev0 = event_attendees ev"
proof (cases "event_id ev")
  case None
  let ?k = "next_rowid event_id (event_table db)"
  have ev0: "ev0 = ev\<lparr>event_id := Some ?k\<rparr>"
    and db0: "db0 = db\<lparr>event_table := event_table db @ [ev0]\<rparr>"
    using assms None by (auto simp: create_event_def Let_def)
  have "session_get event_id (event_table db0) ?k = Some ev0"
    unfolding db0 using session_get_append [OF next_rowid_fresh, of event_id ev0 "event_table db"] ev0
    by simp
  then show ?thesis using that [of ?k] ev0 by simp
next
  case (Some j)
  have free: "session_get event_id (event_table db) j = None"
    and ev0: "ev0 = ev" and db0: "db0 = db\<lparr>event_table := event_table db @ [ev]\<rparr>"
    using assms Some by (auto simp: create_event_def split: if_splits)
  have "session_get event_id (event_table db0) j = Some ev0"
    unfolding db0 ev0 using session_get_append [OF free, of ev] Some by simp
  then show ?thesis using that [of j] ev0 Some by simp
qed

section \<open>The activity registry: signup and unregister\<close>

text \<open>
  Claim C3. Signing up an email that is not in the participants list of a registered
  activity succeeds whatever \<open>max_participants\<close> is (the hypotheses say nothing about
  it, and the list may already be longer), appends the email, which then occurs in the
  list exactly once, and returns the message \<^verbatim>\<open>Signed up <email> for <name>\<close>, which
  contains both the email and the activity name.
\<close>

theorem activity_signup_appends:
  assumes "acts activity_name = Some act" and "email \<notin> set (participants act)"
  shows "signup_for_activity acts activity_name email =
           (Inr (''Signed up '' @ email @ '' for '' @ activity_name),
            acts(activity_name \<mapsto> act\<lparr>participants := participants act @ [email]\<rparr>))
         \<and> count_list (participants act @ [email]) email = 1
         \<and> (\<exists>u v. ''Signed up '' @ email @ '' for '' @ activity_name = u @ email @ v)
         \<and> (\<exists>u v. ''Signed up '' @ email @ '' for '' @ activity_name = u @ activity_name @ v)"
proof -
  have run: "signup_for_activity acts activity_name email =
           (Inr (''Signed up '' @ email @ '' for '' @ activity_name),
            acts(activity_name \<mapsto> act\<lparr>participants := participants act @ [email]\<rparr>))"
    using assms by (simp add: signup_for_activity_def)
  have once: "count_list (participants act @ [email]) email = 1"
    using assms(2) by (simp add: count_list_0_iff)
  have has_email: "''Signed up '' @ email @ '' for '' @ activity_name
                     = ''Signed up '' @ email @ ('' for '' @ activity_name)"
    by simp
  have has_name: "''Signed up '' @ email @ '' for '' @ activity_name
                     = (''Signed up '' @ email @ '' for '') @ activity_name @ []"
    by simp
  show ?thesis using run once has_email has_name by blast
qed

text \<open>An activity already over its \<open>max_participants\<close> still takes the signup.\<close>

theorem activity_signup_appends_witness:
  "signup_for_activity
     (Map.empty(''Chess Club'' \<mapsto>
        \<lparr>description = ''d'', schedule = ''s'', max_participants = 1,
         participants = [''a@x.edu'', ''b@x.edu'']\<rparr>))
     ''Chess Club'' ''c@x.edu'' =
     (Inr ''Signed up c@x.edu for Chess Club'',
      (Map.empty(''Chess Club'' \<mapsto>
        \<lparr>description = ''d'', schedule = ''s'', max_participants = 1,
         participants = [''a@x.edu'', ''b@x.edu'']\<rparr>))
      (''Chess Club'' \<mapsto>
        \<lparr>description = ''d'', schedule = ''s'', max_participants = 1,
         participants = [''a@x.edu'', ''b@x.edu'', ''c@x.edu'']\<rparr>))
   \<and> count_list [''a@x.edu'', ''b@x.edu'', ''c@x.edu''] ''c@x.edu'' = 1"
  using activity_signup_appends
    [of "Map.empty(''Chess Club'' \<mapsto>
        \<lparr>description = ''d'', schedule = ''s'', max_participants = 1,
         participants = [''a@x.edu'', ''b@x.edu'']\<rparr>)"
        "''Chess Club''"
        "\<lparr>description = ''d'', schedule = ''s'', max_participants = 1,
         participants = [''a@x.edu'', ''b@x.edu'']\<rparr>"
        "''c@x.edu''"]
  by simp

text \<open>
  Claim C4. Signing up an email that is already in the participants list fails with
  400 \<^verbatim>\<open>Student is already signed up\<close> and leaves the registry as it was. On the
  seeded registry, signing up \<^verbatim>\<open>test@mergington.edu\<close> for \<^verbatim>\<open>Chess Club\<close> returns
  \<^verbatim>\<open>Signed up test@mergington.edu for Chess Club\<close>, and the same call on the
  registry it leaves returns the 400.
\<close>

theorem activity_signup_duplicate:
  "(acts activity_name = Some act \<and> email \<in> set (participants act) \<longrightarrow>
      signup_for_activity acts activity_name email =
        (Inl (HTTPException 400 ''Student is already signed up''), acts))
   \<and> (\<exists>acts'. signup_for_activity activities ''Chess Club'' ''test@mergington.edu'' =
          (Inr ''Signed up test@mergington.edu for Chess Club'', acts')
        \<and> signup_for_activity acts' ''Chess Club'' ''test@mergington.edu'' =
          (Inl (HTTPException 400 ''Student is already signed up''), acts'))"
proof -
  have general: "acts activity_name = Some act \<and> email \<in> set (participants act) \<longrightarrow>
      signup_for_activity acts activity_name email =
        (Inl (HTTPException 400 ''Student is already signed up''), acts)"
    by (simp add: signup_for_activity_def)
  have chess: "activities ''Chess Club'' =
      Some \<lparr>description = ''Learn strategies and compete in chess tournaments'',
            schedule = ''Fridays, 3:30 PM - 5:00 PM'',
            max_participants = 12,
            participants = [''michael@mergington.edu'', ''daniel@mergington.edu'']\<rparr>"
    by (simp add: activities_def)
  have first: "signup_for_activity activities ''Chess Club'' ''test@mergington.edu'' =
      (Inr ''Signed up test@mergington.edu for Chess Club'',
       activities(''Chess Club'' \<mapsto>
         \<lparr>description = ''Learn strategies and compete in chess tournaments'',
          schedule = ''Fridays, 3:30 PM - 5:00 PM'',
          max_participants = 12,
          participants = [''michael@mergington.edu'', ''daniel@mergington.edu'',
                          ''test@mergington.edu'']\<rparr>))"
    by (simp add: signup_for_activity_def chess)
  have second: "signup_for_activity (activities(''Chess Club'' \<mapsto>
         \<lparr>description = ''Learn strategies and compete in chess tournaments'',
          schedule = ''Fridays, 3:30 PM - 5:00 PM'',
          max_participants = 12,
          participants = [''michael@mergington.edu'', ''daniel@mergington.edu'',
                          ''test@mergington.edu'']\<rparr>)) ''Chess Club'' ''test@mergington.edu'' =
      (Inl (HTTPException 400 ''Student is already signed up''),
       activities(''Chess Club'' \<mapsto>
         \<lparr>description = ''Learn strategies and compete in chess tournaments'',
          schedule = ''Fridays, 3:30 PM - 5:00 PM'',
          max_participants = 12,
          participants = [''michael@mergington.edu'', ''daniel@mergington.edu'',
                          ''test@mergington.edu'']\<rparr>))"
    by (simp add: signup_for_activity_def)
  show ?thesis using general first second by blast
qed

theorem activity_signup_duplicate_witness:
  "signup_for_activity
     (Map.empty(''Art Club'' \<mapsto>
        \<lparr>description = ''d'', schedule = ''s'', max_participants = 15,
         participants = [''amelia@mergington.edu'']\<rparr>))
     ''Art Club'' ''amelia@mergington.edu'' =
     (Inl (HTTPException 400 ''Student is already signed up''),
      Map.empty(''Art Club'' \<mapsto>
        \<lparr>description = ''d'', schedule = ''s'', max_participants = 15,
         participants = [''amelia@mergington.edu'']\<rparr>))"
  using activity_signup_duplicate
    [of "Map.empty(''Art Club'' \<mapsto>
        \<lparr>description = ''d'', schedule = ''s'', max_participants = 15,
         participants = [''amelia@mergington.edu'']\<rparr>)"
        "''Art Club''"
        "\<lparr>description = ''d'', schedule = ''s'', max_participants = 15,
         participants = [''amelia@mergington.edu'']\<rparr>"
        "''amelia@mergington.edu''"]
  by simp

text \<open>
  Claim C7. Unregistering fails with 404 when the name is not in the registry, fails
  with 400 and leaves the registry as it was when the email is not in the participants
  list, and otherwise removes one occurrence of the email (the only one, when the list
  has no duplicates) and returns a confirmation message.
\<close>

theorem activity_unregister:
  "(acts activity_name = None \<longrightarrow>
      unregister_from_activity acts activity_name email =
        (Inl (HTTPException 404 ''Activity not found''), acts))
   \<and> (acts activity_name = Some act \<and> email \<notin> set (participants act) \<longrightarrow>
      unregister_from_activity acts activity_name email =
        (Inl (HTTPException 400 ''Student is not signed up for this activity''), acts))
   \<and> (acts activity_name = Some act \<and> email \<in> set (participants act) \<longrightarrow>
      unregister_from_activity acts activity_name email =
        (Inr (''Unregistered '' @ email @ '' from '' @ activity_name),
         acts(activity_name \<mapsto> act\<lparr>participants := remove1 email (participants act)\<rparr>))
      \<and> count_list (remove1 email (participants act)) email
            = count_list (participants act) email - 1
      \<and> (distinct (participants act) \<longrightarrow> email \<notin> set (remove1 email (participants act))))"
proof -
  have cnt: "count_list (remove1 email xs) email = count_list xs email - 1" for xs
    by (induction xs) auto
  show ?thesis by (simp add: unregister_from_activity_def cnt)
qed

theorem activity_unregister_witness:
  "unregister_from_activity Map.empty ''Chess Club'' ''a@x.edu'' =
     (Inl (HTTPException 404 ''Activity not found''), Map.empty)
   \<and> unregister_from_activity
       (Map.empty(''Chess Club'' \<mapsto>
          \<lparr>description = ''d'', schedule = ''s'', max_participants = 12,
           participants = [''a@x.edu'', ''b@x.edu'']\<rparr>))
       ''Chess Club'' ''c@x.edu'' =
     (Inl (HTTPException 400 ''Student is not signed up for this activity''),
      Map.empty(''Chess Club'' \<mapsto>
          \<lparr>description = ''d'', schedule = ''s'', max_participants = 12,
           participants = [''a@x.edu'', ''b@x.edu'']\<rparr>))
   \<and> unregister_from_activity
       (Map.empty(''Chess Club'' \<mapsto>
          \<lparr>description = ''d'', schedule = ''s'', max_participants = 12,
           participants = [''a@x.edu'', ''b@x.edu'']\<rparr>))
       ''Chess Club'' ''a@x.edu'' =
     (Inr ''Unregistered a@x.edu from Chess Club'',
      (Map.empty(''Chess Club'' \<mapsto>
          \<lparr>description = ''d'', schedule = ''s'', max_participants = 12,
           participants = [''a@x.edu'', ''b@x.edu'']\<rparr>))
      (''Chess Club'' \<mapsto>
          \<lparr>description = ''d'', schedule = ''s'', max_participants = 12,
           participants = [''b@x.edu'']\<rparr>))"
  using activity_unregister [of Map.empty "''Chess Club''" "''a@x.edu''"]
    activity_unregister
      [of "Map.empty(''Chess Club'' \<mapsto>
          \<lparr>description = ''d'', schedule = ''s'', max_participants = 12,
           participants = [''a@x.edu'', ''b@x.edu'']\<rparr>)"
        "''Chess Club''" "''c@x.edu''"
        "\<lparr>description = ''d'', schedule = ''s'', max_participants = 12,
           participants = [''a@x.edu'', ''b@x.edu'']\<rparr>"]
    activity_unregister
      [of "Map.empty(''Chess Club'' \<mapsto>
          \<lparr>description = ''d'', schedule = ''s'', max_participants = 12,
           participants = [''a@x.edu'', ''b@x.edu'']\<rparr>)"
        "''Chess Club''" "''a@x.edu''"
        "\<lparr>description = ''d'', schedule = ''s'', max_participants = 12,
           participants = [''a@x.edu'', ''b@x.edu'']\<rparr>"]
  by simp

section \<open>Event signup: the capacity check\<close>

lemma example_db_rows:
  "session_get event_id (event_table example_db) 1 = Some full_event"
  "session_get event_id (event_table example_db) 2 = Some open_event"
  "session_get event_id (event_table example_db) 3 = None"
  by (simp_all add: example_db_def session_get_def full_event_def open_event_def blank_event_def)

lemma example_attendees:
  "parse_attendees (event_attendees full_event) = [''a@x.edu'']"
  "parse_attendees (event_attendees open_event) = [''a@x.edu'', ''b@x.edu'']"
  "parse_attendees (event_attendees blank_event) = []"
  by (simp_all add: full_event_def open_event_def blank_event_def parse_attendees_def)

text \<open>
  Claim C1. For a stored event whose capacity is set and non-zero and whose decoded
  attendee list is at least that long, signing up an email that is not in the list
  fails with 400 \<^verbatim>\<open>Event is full\<close> and leaves the database, hence the stored
  attendees string, as it was. When the capacity is unset or 0 the signup is never
  answered with \<^verbatim>\<open>Event is full\<close>, and an email not in the list is signed up.
\<close>

theorem event_signup_capacity:
  assumes "session_get event_id (event_table db) i = Some ev"
  shows "(event_capacity ev = Some c \<and> c \<noteq> 0
            \<and> c \<le> int (length (parse_attendees (event_attendees ev)))
            \<and> email \<notin> set (parse_attendees (event_attendees ev)) \<longrightarrow>
          signup_event db i email = (Inl (HTTPException 400 ''Event is full''), db))
       \<and> (event_capacity ev = None \<or> event_capacity ev = Some 0 \<longrightarrow>
          fst (signup_event db i email) \<noteq> Inl (HTTPException 400 ''Event is full'')
          \<and> (email \<notin> set (parse_attendees (event_attendees ev)) \<longrightarrow>
               fst (signup_event db i email) = Inr (''Signed up '' @ email)))"
proof -
  have key: "event_id ev = Some i" using session_get_Some [OF assms] by simp
  have full: "signup_event db i email = (Inl (HTTPException 400 ''Event is full''), db)"
    if "event_capacity ev = Some c" "c \<noteq> 0"
      "c \<le> int (length (parse_attendees (event_attendees ev)))"
      "email \<notin> set (parse_attendees (event_attendees ev))"
    using that assms by (simp add: signup_event_def Let_def is_full_def)
  have room: "\<not> is_full (event_capacity ev) (parse_attendees (event_attendees ev))"
    if "event_capacity ev = None \<or> event_capacity ev = Some 0"
    using that by (auto simp: is_full_def)
  have unlimited: "fst (signup_event db i email) \<noteq> Inl (HTTPException 400 ''Event is full'')
      \<and> (email \<notin> set (parse_attendees (event_attendees ev)) \<longrightarrow>
            fst (signup_event db i email) = Inr (''Signed up '' @ email))"
    if "event_capacity ev = None \<or> event_capacity ev = Some 0"
  proof (cases "email \<in> set (parse_attendees (event_attendees ev))")
    case True
    then show ?thesis using assms by (simp add: signup_event_def Let_def)
  next
    case False
    then show ?thesis using signup_event_success [OF assms False room [OF that]] by simp
  qed
  show ?thesis using full unlimited by blast
qed

theorem event_signup_capacity_witness:
  "signup_event example_db 1 ''b@x.edu'' = (Inl (HTTPException 400 ''Event is full''), example_db)
   \<and> fst (signup_event example_db 2 ''c@x.edu'') = Inr ''Signed up c@x.edu''"
  using event_signup_capacity [OF example_db_rows(1), of 1 "''b@x.edu''"]
    event_signup_capacity [OF example_db_rows(2), of 0 "''c@x.edu''"]
  by (simp add: example_attendees) (simp add: full_event_def open_event_def blank_event_def)

section \<open>Checkin\<close>

text \<open>
  Claim C6. Checkin fails with 404 when the event is absent, with 400 when the email
  is not in the decoded attendee list, and otherwise returns a confirmation message;
  in each of the three cases the database it leaves is the database it found.
\<close>

theorem checkin_is_pure_validation:
  "snd (checkin_event db i email) = db
   \<and> (session_get event_id (event_table db) i = None \<longrightarrow>
        fst (checkin_event db i email) = Inl (HTTPException 404 ''Event not found''))
   \<and> (\<forall>ev. session_get event_id (event_table db) i = Some ev \<longrightarrow>
        fst (checkin_event db i email) =
          (if email \<in> set (parse_attendees (event_attendees ev))
           then Inr (''Checked in '' @ email)
           else Inl (HTTPException 400 ''Student not registered'')))"
  by (simp add: checkin_event_def split: option.splits)

theorem checkin_is_pure_validation_witness:
  "checkin_event example_db 3 ''a@x.edu'' = (Inl (HTTPException 404 ''Event not found''), example_db)
   \<and> checkin_event example_db 1 ''b@x.edu'' =
        (Inl (HTTPException 400 ''Student not registered''), example_db)
   \<and> checkin_event example_db 2 ''b@x.edu'' = (Inr ''Checked in b@x.edu'', example_db)"
  using checkin_is_pure_validation [of example_db 3 "''a@x.edu''"]
    checkin_is_pure_validation [of example_db 1 "''b@x.edu''"]
    checkin_is_pure_validation [of example_db 2 "''b@x.edu''"]
  by (simp add: example_db_rows example_attendees prod_eq_iff)

section \<open>The empty email\<close>

text \<open>
  Claim C10. For a stored event that the capacity check lets through, signing up the
  empty string returns the success message; the decoded attendee list of the stored
  event is afterwards what it was, so it does not hold the empty string; and the same
  signup on the database so left succeeds again instead of failing as a duplicate.
\<close>

theorem empty_email_signup:
  assumes "session_get event_id (event_table db) i = Some ev"
    and "\<not> is_full (event_capacity ev) (parse_attendees (event_attendees ev))"
  shows "\<exists>db' ev' db''.
           signup_event db i [] = (Inr ''Signed up '', db')
         \<and> session_get event_id (event_table db') i = Some ev'
         \<and> parse_attendees (event_attendees ev') = parse_attendees (event_attendees ev)
         \<and> [] \<notin> set (parse_attendees (event_attendees ev'))
         \<and> signup_event db' i [] = (Inr ''Signed up '', db'')"
proof -
  let ?ev' = "ev\<lparr>event_attendees :=
                  Some (join_attendees (parse_attendees (event_attendees ev) @ [[]]))\<rparr>"
  have absent: "[] \<notin> set (parse_attendees s)" for s
    using parse_attendees_members [of "[]" s] by blast
  obtain db' where first: "signup_event db i [] = (Inr ''Signed up '', db')"
    using signup_event_success [OF assms(1) absent assms(2)] by simp
  have stored: "session_get event_id (event_table db') i = Some ?ev'"
    using signup_event_stored [OF assms(1) first] .
  have same: "parse_attendees (event_attendees ?ev') = parse_attendees (event_attendees ev)"
    by (simp add: parse_after_signup)
  have room: "\<not> is_full (event_capacity ?ev') (parse_attendees (event_attendees ?ev'))"
    using assms(2) same by simp
  obtain db'' where second: "signup_event db' i [] = (Inr ''Signed up '', db'')"
    using signup_event_success [OF stored absent room] by simp
  show ?thesis using first stored same absent second by blast
qed

theorem empty_email_signup_witness:
  "\<exists>db' ev' db''.
       signup_event example_db 2 [] = (Inr ''Signed up '', db')
     \<and> session_get event_id (event_table db') 2 = Some ev'
     \<and> parse_attendees (event_attendees ev') = [''a@x.edu'', ''b@x.edu'']
     \<and> signup_event db' 2 [] = (Inr ''Signed up '', db'')"
proof -
  have room: "\<not> is_full (event_capacity open_event) (parse_attendees (event_attendees open_event))"
    by (simp add: is_full_def open_event_def blank_event_def)
  show ?thesis
    using empty_email_signup [OF example_db_rows(2) room] by (simp add: example_attendees) blast
qed

section \<open>Round trip through the attendee encoding\<close>

lemma get_event_stored:
  "session_get event_id (event_table db) i = Some ev \<Longrightarrow> get_event db i = (Inr ev, db)"
  by (simp add: get_event_def)

text \<open>
  Claim C2, for emails the encoding can carry. Create an event whose attendees decode
  to the empty list, sign up three emails, each signup succeeding, and read the event:
  when each of the three emails is non-empty and holds no comma, the decoded attendee
  list is exactly the three emails in the order of the signups. (For an email with a
  comma the statement fails: see the counterexample below, where the first email is
  \<^verbatim>\<open>a,b\<close> and four attendees are read back.)
\<close>

theorem attendees_round_trip:
  assumes "create_event db ev = (Inr ev0, db0)"
    and "parse_attendees (event_attendees ev) = []"
    and "event_id ev0 = Some i"
    and "signup_event db0 i a = (Inr m1, db1)"
    and "signup_event db1 i b = (Inr m2, db2)"
    and "signup_event db2 i c = (Inr m3, db3)"
    and "a \<noteq> [] \<and> comma_free a" and "b \<noteq> [] \<and> comma_free b" and "c \<noteq> [] \<and> comma_free c"
  shows "\<exists>ev3. get_event db3 i = (Inr ev3, db3)
               \<and> parse_attendees (event_attendees ev3) = [a, b, c]"
proof -
  obtain j where "event_id ev0 = Some j"
    and "session_get event_id (event_table db0) j = Some ev0"
    and att0: "event_attendees ev0 = event_attendees ev"
    using assms(1) by (rule create_event_stored)
  then have row0: "session_get event_id (event_table db0) i = Some ev0"
    using assms(3) by simp
  let ?ev1 = "ev0\<lparr>event_attendees :=
                  Some (join_attendees (parse_attendees (event_attendees ev0) @ [a]))\<rparr>"
  have row1: "session_get event_id (event_table db1) i = Some ?ev1"
    using signup_event_stored [OF row0 assms(4)] .
  have "parse_attendees (event_attendees ?ev1) = parse_attendees (event_attendees ev0) @ [a]"
    using assms(7) by (simp add: parse_after_clean_signup)
  then have dec1: "parse_attendees (event_attendees ?ev1) = [a]"
    using assms(2) att0 by simp
  let ?ev2 = "?ev1\<lparr>event_attendees :=
                  Some (join_attendees (parse_attendees (event_attendees ?ev1) @ [b]))\<rparr>"
  have row2: "session_get event_id (event_table db2) i = Some ?ev2"
    using signup_event_stored [OF row1 assms(5)] .
  have "parse_attendees (event_attendees ?ev2) = parse_attendees (event_attendees ?ev1) @ [b]"
    using assms(8) by (simp add: parse_after_clean_signup)
  then have dec2: "parse_attendees (event_attendees ?ev2) = [a, b]"
    using dec1 by simp
  let ?ev3 = "?ev2\<lparr>event_attendees :=
                  Some (join_attendees (parse_attendees (event_attendees ?ev2) @ [c]))\<rparr>"
  have row3: "session_get event_id (event_table db3) i = Some ?ev3"
    using signup_event_stored [OF row2 assms(6)] .
  have "parse_attendees (event_attendees ?ev3) = parse_attendees (event_attendees ?ev2) @ [c]"
    using assms(9) by (simp add: parse_after_clean_signup)
  then have dec3: "parse_attendees (event_attendees ?ev3) = [a, b, c]"
    using dec2 by simp
  show ?thesis using get_event_stored [OF row3] dec3 by blast
qed

lemma created_db_run:
  "create_event empty_db blank_event = (Inr (blank_event\<lparr>event_id := Some 1\<rparr>), created_db)"
  by (simp add: create_event_def empty_db_def blank_event_def created_db_def next_rowid_def
      List.map_filter_simps Let_def)

lemma created_db_row:
  "session_get event_id (event_table created_db) 1 = Some (blank_event\<lparr>event_id := Some 1\<rparr>)"
  by (simp add: created_db_def session_get_def blank_event_def)

lemma stored_db_row:
  "session_get event_id (event_table (stored_db s)) 1 =
     Some (blank_event\<lparr>event_id := Some 1, event_attendees := Some s\<rparr>)"
  by (simp add: stored_db_def session_get_def blank_event_def)

lemma created_db_signup:
  "signup_event created_db 1 email = (Inr (''Signed up '' @ email), stored_db email)"
proof -
  have "signup_event created_db 1 email =
      (Inr (''Signed up '' @ email),
       created_db\<lparr>event_table :=
          map (\<lambda>r. if event_id r = Some 1
                   then blank_event\<lparr>event_id := Some 1,
                          event_attendees := Some (join_attendees ([] @ [email]))\<rparr>
                   else r) (event_table created_db)\<rparr>)"
    using signup_event_success [OF created_db_row, of email]
    by (simp add: blank_event_def parse_attendees_def is_full_def)
  then show ?thesis by (simp add: created_db_def stored_db_def blank_event_def)
qed

lemma stored_db_signup:
  assumes "email \<notin> set (parse_attendees (Some s))"
  shows "signup_event (stored_db s) 1 email =
     (Inr (''Signed up '' @ email),
      stored_db (join_attendees (parse_attendees (Some s) @ [email])))"
proof -
  have "signup_event (stored_db s) 1 email =
      (Inr (''Signed up '' @ email),
       (stored_db s)\<lparr>event_table :=
          map (\<lambda>r. if event_id r = Some 1
                   then blank_event\<lparr>event_id := Some 1,
                          event_attendees :=
                            Some (join_attendees (parse_attendees (Some s) @ [email]))\<rparr>
                   else r) (event_table (stored_db s))\<rparr>)"
    using signup_event_success [OF stored_db_row, of email s] assms
    by (simp add: blank_event_def is_full_def)
  then show ?thesis by (simp add: stored_db_def blank_event_def)
qed

theorem attendees_round_trip_witness:
  "\<exists>ev3. get_event (stored_db ''a@x.edu,b@x.edu,c@x.edu'') 1 =
            (Inr ev3, stored_db ''a@x.edu,b@x.edu,c@x.edu'')
         \<and> parse_attendees (event_attendees ev3) = [''a@x.edu'', ''b@x.edu'', ''c@x.edu'']"
proof -
  have s1: "signup_event created_db 1 ''a@x.edu'' = (Inr ''Signed up a@x.edu'', stored_db ''a@x.edu'')"
    using created_db_signup [of "''a@x.edu''"] by simp
  have s2: "signup_event (stored_db ''a@x.edu'') 1 ''b@x.edu''
              = (Inr ''Signed up b@x.edu'', stored_db ''a@x.edu,b@x.edu'')"
    using stored_db_signup [of "''b@x.edu''" "''a@x.edu''"] by (simp add: parse_attendees_def)
  have s3: "signup_event (stored_db ''a@x.edu,b@x.edu'') 1 ''c@x.edu''
              = (Inr ''Signed up c@x.edu'', stored_db ''a@x.edu,b@x.edu,c@x.edu'')"
    using stored_db_signup [of "''c@x.edu''" "''a@x.edu,b@x.edu''"]
    by (simp add: parse_attendees_def)
  have none: "parse_attendees (event_attendees blank_event) = []"
    by (simp add: blank_event_def parse_attendees_def)
  have key: "event_id (blank_event\<lparr>event_id := Some 1\<rparr>) = Some 1" by simp
  show ?thesis
    using attendees_round_trip [OF created_db_run none key s1 s2 s3]
    by (simp add: comma_free_def)
qed

theorem attendees_round_trip_counterexample:
  "create_event empty_db blank_event = (Inr (blank_event\<lparr>event_id := Some 1\<rparr>), created_db)
   \<and> parse_attendees (event_attendees blank_event) = []
   \<and> signup_event created_db 1 ''a,b'' = (Inr ''Signed up a,b'', stored_db ''a,b'')
   \<and> signup_event (stored_db ''a,b'') 1 ''c'' = (Inr ''Signed up c'', stored_db ''a,b,c'')
   \<and> signup_event (stored_db ''a,b,c'') 1 ''d'' = (Inr ''Signed up d'', stored_db ''a,b,c,d'')
   \<and> get_event (stored_db ''a,b,c,d'') 1 =
        (Inr (blank_event\<lparr>event_id := Some 1, event_attendees := Some ''a,b,c,d''\<rparr>),
         stored_db ''a,b,c,d'')
   \<and> parse_attendees (Some ''a,b,c,d'') = [''a'', ''b'', ''c'', ''d'']
   \<and> parse_attendees (Some ''a,b,c,d'') \<noteq> [''a,b'', ''c'', ''d'']"
proof -
  have s1: "signup_event created_db 1 ''a,b'' = (Inr ''Signed up a,b'', stored_db ''a,b'')"
    using created_db_signup [of "''a,b''"] by simp
  have s2: "signup_event (stored_db ''a,b'') 1 ''c'' = (Inr ''Signed up c'', stored_db ''a,b,c'')"
    using stored_db_signup [of "''c''" "''a,b''"] by (simp add: parse_attendees_def)
  have s3: "signup_event (stored_db ''a,b,c'') 1 ''d'' = (Inr ''Signed up d'', stored_db ''a,b,c,d'')"
    using stored_db_signup [of "''d''" "''a,b,c''"] by (simp add: parse_attendees_def)
  have g: "get_event (stored_db ''a,b,c,d'') 1 =
        (Inr (blank_event\<lparr>event_id := Some 1, event_attendees := Some ''a,b,c,d''\<rparr>),
         stored_db ''a,b,c,d'')"
    by (rule get_event_stored) (rule stored_db_row)
  have none: "parse_attendees (event_attendees blank_event) = []"
    by (simp add: blank_event_def parse_attendees_def)
  have dec: "parse_attendees (Some ''a,b,c,d'') = [''a'', ''b'', ''c'', ''d'']"
    by (simp add: parse_attendees_def)
  show ?thesis using created_db_run none s1 s2 s3 g dec by simp
qed

section \<open>No email twice\<close>

lemma unique_participants_upd:
  assumes "unique_participants acts" and "distinct (participants act)"
  shows "unique_participants (acts(name \<mapsto> act))"
  using assms unfolding unique_participants_def ran_def by auto

lemma unique_participants_row:
  "unique_participants acts \<Longrightarrow> acts name = Some act \<Longrightarrow> distinct (participants act)"
  unfolding unique_participants_def ran_def by auto

lemma signup_for_activity_unique:
  assumes "unique_participants acts"
  shows "unique_participants (snd (signup_for_activity acts name email))"
proof (cases "acts name")
  case None
  then show ?thesis using assms by (simp add: signup_for_activity_def)
next
  case (Some act)
  have "distinct (participants act)" using assms Some by (rule unique_participants_row)
  then show ?thesis
    using assms Some
    by (simp add: signup_for_activity_def unique_participants_upd)
qed

lemma unregister_from_activity_unique:
  assumes "unique_participants acts"
  shows "unique_participants (snd (unregister_from_activity acts name email))"
proof (cases "acts name")
  case None
  then show ?thesis using assms by (simp add: unregister_from_activity_def)
next
  case (Some act)
  have "distinct (participants act)" using assms Some by (rule unique_participants_row)
  then show ?thesis
    using assms Some
    by (simp add: unregister_from_activity_def unique_participants_upd)
qed

lemma unique_attendees_row:
  assumes "unique_attendees db" and "session_get event_id (event_table db) i = Some ev"
  shows "distinct (parse_attendees (event_attendees ev))"
proof -
  have "ev \<in> set (event_table db)" using session_get_Some [OF assms(2)] by simp
  then show ?thesis using assms(1) by (simp add: unique_attendees_def list_all_iff)
qed

lemma unique_attendees_rewritten:
  assumes "unique_attendees db" and "distinct (parse_attendees (event_attendees ev'))"
  shows "unique_attendees
           (db\<lparr>event_table := map (\<lambda>r. if event_id r = Some i then ev' else r) (event_table db)\<rparr>)"
  using assms by (simp add: unique_attendees_def list_all_rewritten)

lemma signup_event_unique:
  assumes "unique_attendees db" and "comma_free email"
  shows "unique_attendees (snd (signup_event db i email))"
proof (cases "session_get event_id (event_table db) i")
  case None
  then show ?thesis using assms(1) by (simp add: signup_event_def)
next
  case (Some ev)
  let ?xs = "parse_attendees (event_attendees ev)"
  have key: "event_id ev = Some i" using session_get_Some [OF Some] by simp
  have dist: "distinct ?xs" using assms(1) Some by (rule unique_attendees_row)
  show ?thesis
  proof (cases "email \<in> set ?xs \<or> is_full (event_capacity ev) ?xs")
    case True
    then show ?thesis using assms(1) Some by (auto simp: signup_event_def Let_def)
  next
    case False
    let ?ev' = "ev\<lparr>event_attendees := Some (join_attendees (?xs @ [email]))\<rparr>"
    have run: "snd (signup_event db i email) =
        db\<lparr>event_table := map (\<lambda>r. if event_id r = Some i then ?ev' else r) (event_table db)\<rparr>"
      using signup_event_success [OF Some, of email] False by simp
    have "parse_attendees (event_attendees ?ev') = ?xs @ (if email = [] then [] else [email])"
      using assms(2) by (simp add: parse_after_signup split_comma_id)
    then have "distinct (parse_attendees (event_attendees ?ev'))"
      using dist False by simp
    then show ?thesis unfolding run using assms(1) by (rule unique_attendees_rewritten [rotated])
  qed
qed

lemma unregister_event_unique:
  assumes "unique_attendees db"
  shows "unique_attendees (snd (unregister_event db i email))"
proof (cases "session_get event_id (event_table db) i")
  case None
  then show ?thesis using assms(1) by (simp add: unregister_event_def)
next
  case (Some ev)
  let ?xs = "parse_attendees (event_attendees ev)"
  have key: "event_id ev = Some i" using session_get_Some [OF Some] by simp
  have dist: "distinct ?xs" using assms(1) Some by (rule unique_attendees_row)
  show ?thesis
  proof (cases "email \<in> set ?xs")
    case False
    then show ?thesis using assms(1) Some by (simp add: unregister_event_def Let_def)
  next
    case True
    let ?ev' = "ev\<lparr>event_attendees := Some (join_attendees (remove1 email ?xs))\<rparr>"
    have run: "snd (unregister_event db i email) =
        db\<lparr>event_table := map (\<lambda>r. if event_id r = Some i then ?ev' else r) (event_table db)\<rparr>"
      using Some True key by (simp add: unregister_event_def Let_def session_update_same)
    have "distinct (parse_attendees (event_attendees ?ev'))"
      using dist by (simp add: parse_after_remove)
    then show ?thesis unfolding run using assms(1) by (rule unique_attendees_rewritten [rotated])
  qed
qed

text \<open>
  Claim C9, with the one restriction it needs. When no participants list of the
  registry holds an email twice, activity signup and unregister leave a registry with
  that property. When no decoded attendee list of the event table holds an email
  twice, event unregister and checkin leave a database with that property, and so
  does event signup of an email that holds no comma. (An email with a comma breaks it:
  in the counterexample below \<^verbatim>\<open>x,x\<close> passes the membership check and is read back
  as two attendees \<^verbatim>\<open>x\<close>.)
\<close>

theorem uniqueness_preserved:
  "(unique_participants acts \<longrightarrow>
      unique_participants (snd (signup_for_activity acts name email))
      \<and> unique_participants (snd (unregister_from_activity acts name email)))
   \<and> (unique_attendees db \<longrightarrow>
      unique_attendees (snd (unregister_event db i email))
      \<and> unique_attendees (snd (checkin_event db i email))
      \<and> (comma_free email \<longrightarrow> unique_attendees (snd (signup_event db i email))))"
proof -
  have "snd (checkin_event db i email) = db"
    by (simp add: checkin_event_def split: option.splits)
  then show ?thesis
    using signup_for_activity_unique unregister_from_activity_unique
      unregister_event_unique signup_event_unique
    by simp
qed

lemma activities_unique: "unique_participants activities"
proof -
  have "ran activities = snd ` set
    [(''Chess Club'',
        \<lparr>description = ''Learn strategies and compete in chess tournaments'',
         schedule = ''Fridays, 3:30 PM - 5:00 PM'',
         max_participants = 12,
         participants = [''michael@mergington.edu'', ''daniel@mergington.edu'']\<rparr>),
     (''Programming Class'',
        \<lparr>description = ''Learn programming fundamentals and build software projects'',
         schedule = ''Tuesdays and Thursdays, 3:30 PM - 4:30 PM'',
         max_participants = 20,
         participants = [''emma@mergington.edu'', ''sophia@mergington.edu'']\<rparr>),
     (''Gym Class'',
        \<lparr>description = ''Physical education and sports activities'',
         schedule = ''Mondays, Wednesdays, Fridays, 2:00 PM - 3:00 PM'',
         max_participants = 30,
         participants = [''john@mergington.edu'', ''olivia@mergington.edu'']\<rparr>),
     (''Soccer Team'',
        \<lparr>description = ''Join the school soccer team and compete in matches'',
         schedule = ''Tuesdays and Thursdays, 4:00 PM - 5:30 PM'',
         max_participants = 22,
         participants = [''liam@mergington.edu'', ''noah@mergington.edu'']\<rparr>),
     (''Basketball Team'',
        \<lparr>description = ''Practice and play basketball with the school team'',
         schedule = ''Wednesdays and Fridays, 3:30 PM - 5:00 PM'',
         max_participants = 15,
         participants = [''ava@mergington.edu'', ''mia@mergington.edu'']\<rparr>),
     (''Art Club'',
        \<lparr>description = ''Explore your creativity through painting and drawing'',
         schedule = ''Thursdays, 3:30 PM - 5:00 PM'',
         max_participants = 15,
         participants = [''amelia@mergington.edu'', ''harper@mergington.edu'']\<rparr>),
     (''Drama Club'',
        \<lparr>description = ''Act, direct, and produce plays and performances'',
         schedule = ''Mondays and Wednesdays, 4:00 PM - 5:30 PM'',
         max_participants = 20,
         participants = [''ella@mergington.edu'', ''scarlett@mergington.edu'']\<rparr>),
     (''Math Club'',
        \<lparr>description = ''Solve challenging problems and participate in math competitions'',
         schedule = ''Tuesdays, 3:30 PM - 4:30 PM'',
         max_participants = 10,
         participants = [''james@mergington.edu'', ''benjamin@mergington.edu'']\<rparr>),
     (''Debate Team'',
        \<lparr>description = ''Develop public speaking and argumentation skills'',
         schedule = ''Fridays, 4:00 PM - 5:30 PM'',
         max_participants = 12,
         participants = [''charlotte@mergington.edu'', ''henry@mergington.edu'']\<rparr>)]"
    unfolding activities_def by (rule ran_distinct) simp
  then show ?thesis unfolding unique_participants_def by simp
qed

lemma example_db_unique: "unique_attendees example_db"
  by (simp add: unique_attendees_def example_db_def example_attendees)

theorem uniqueness_preserved_witness:
  "unique_participants activities
   \<and> unique_participants (snd (signup_for_activity activities ''Chess Club'' ''c@x.edu''))
   \<and> unique_participants (snd (unregister_from_activity activities ''Chess Club'' ''c@x.edu''))
   \<and> unique_attendees example_db
   \<and> comma_free ''c@x.edu''
   \<and> unique_attendees (snd (unregister_event example_db 2 ''c@x.edu''))
   \<and> unique_attendees (snd (checkin_event example_db 2 ''c@x.edu''))
   \<and> unique_attendees (snd (signup_event example_db 2 ''c@x.edu''))"
  using uniqueness_preserved [of activities "''Chess Club''" "''c@x.edu''" example_db 2]
    activities_unique example_db_unique
  by (simp add: comma_free_def)

theorem uniqueness_preserved_counterexample:
  "unique_attendees created_db
   \<and> signup_event created_db 1 ''x,x'' = (Inr ''Signed up x,x'', stored_db ''x,x'')
   \<and> parse_attendees (Some ''x,x'') = [''x'', ''x'']
   \<and> \<not> unique_attendees (stored_db ''x,x'')"
proof -
  have before: "unique_attendees created_db"
    by (simp add: unique_attendees_def created_db_def blank_event_def parse_attendees_def)
  have run: "signup_event created_db 1 ''x,x'' = (Inr ''Signed up x,x'', stored_db ''x,x'')"
    using created_db_signup [of "''x,x''"] by simp
  have dec: "parse_attendees (Some ''x,x'') = [''x'', ''x'']"
    by (simp add: parse_attendees_def)
  have after: "\<not> unique_attendees (stored_db ''x,x'')"
    by (simp add: unique_attendees_def stored_db_def dec)
  show ?thesis using before run dec after by simp
qed

section \<open>Sparse update of an event\<close>

lemma session_update_moved:
  assumes "pk obj = Some k" and "k = i \<or> session_get pk tbl k = None"
  shows "session_update pk tbl i obj = Some (map (\<lambda>x. if pk x = Some i then obj else x) tbl)"
  using assms by (auto simp: session_update_def)

lemma session_update_refused:
  assumes "pk obj = None \<or> (\<exists>k. pk obj = Some k \<and> k \<noteq> i \<and> session_get pk tbl k \<noteq> None)"
  shows "session_update pk tbl i obj = None"
  using assms by (auto simp: session_update_def)

lemma setattrs_fields:
  "sparse_field (set_id p) (event_id ev) (event_id (setattrs p ev))"
  "sparse_field (set_title p) (event_title ev) (event_title (setattrs p ev))"
  "sparse_field (set_description p) (event_description ev) (event_description (setattrs p ev))"
  "sparse_field (set_location p) (event_location ev) (event_location (setattrs p ev))"
  "sparse_field (set_start_datetime p) (event_start_datetime ev)
     (event_start_datetime (setattrs p ev))"
  "sparse_field (set_end_datetime p) (event_end_datetime ev) (event_end_datetime (setattrs p ev))"
  "sparse_field (set_capacity p) (event_capacity ev) (event_capacity (setattrs p ev))"
  "sparse_field (set_attendees p) (event_attendees ev) (event_attendees (setattrs p ev))"
  "sparse_field (set_organizer p) (event_organizer ev) (event_organizer (setattrs p ev))"
  "sparse_field (set_tags p) (event_tags ev) (event_tags (setattrs p ev))"
  by (simp_all add: sparse_field_def setattrs_def split: option.splits)

lemma update_event_commits:
  assumes row: "session_get event_id (event_table db) i = Some ev"
    and key: "event_id (setattrs p ev) = Some k"
    and free: "k = i \<or> session_get event_id (event_table db) k = None"
  shows "\<exists>db'. update_event db i p = (Inr (setattrs p ev), db')
           \<and> get_event db' k = (Inr (setattrs p ev), db')
           \<and> news_table db' = news_table db
           \<and> (\<forall>j. j \<noteq> i \<and> j \<noteq> k \<longrightarrow>
                 session_get event_id (event_table db') j = session_get event_id (event_table db) j)"
proof -
  let ?r = "setattrs p ev"
  let ?tbl = "map (\<lambda>x. if event_id x = Some i then ?r else x) (event_table db)"
  let ?db' = "db\<lparr>event_table := ?tbl\<rparr>"
  have run: "update_event db i p = (Inr ?r, ?db')"
    using row session_update_moved [OF key free]
    by (simp add: update_event_def Let_def)
  have "session_get event_id ?tbl k = Some ?r"
    using row key free by (rule session_get_rewritten)
  then have read: "get_event ?db' k = (Inr ?r, ?db')"
    by (simp add: get_event_def)
  have others: "session_get event_id ?tbl j = session_get event_id (event_table db) j"
    if "j \<noteq> i \<and> j \<noteq> k" for j
    using that key by (simp add: session_get_other)
  show ?thesis using run read others by auto
qed

text \<open>
  Claim C5, with the primary key taken into account. Updating an id that no stored
  event has fails with 404. For a stored event, when the payload leaves \<open>id\<close> unset,
  repeats the event's own id or names an id that no stored event has, the update
  returns a record in which every field the payload set has the payload's value and
  every other field has its stored value; that record is what the table then holds
  under the record's id, and the news table and the other events are as they were.
  When the payload sets \<open>id\<close> to null or to the id of another stored event, the
  commit is refused: the update ends in a persistence error and changes nothing (the
  counterexample below: event 1 exists and no record is returned).
\<close>

theorem update_event_sparse:
  "(session_get event_id (event_table db) i = None \<longrightarrow>
      update_event db i p = (Inl (HTTPException 404 ''Event not found''), db))
   \<and> (session_get event_id (event_table db) i = Some ev
       \<and> (set_id p = None \<or> set_id p = Some (Some i)
            \<or> (\<exists>k. set_id p = Some (Some k) \<and> session_get event_id (event_table db) k = None)) \<longrightarrow>
      (\<exists>r db' k. update_event db i p = (Inr r, db')
         \<and> event_id r = Some k
         \<and> get_event db' k = (Inr r, db')
         \<and> news_table db' = news_table db
         \<and> (\<forall>j. j \<noteq> i \<and> j \<noteq> k \<longrightarrow>
              session_get event_id (event_table db') j = session_get event_id (event_table db) j)
         \<and> sparse_field (set_id p) (event_id ev) (event_id r)
         \<and> sparse_field (set_title p) (event_title ev) (event_title r)
         \<and> sparse_field (set_description p) (event_description ev) (event_description r)
         \<and> sparse_field (set_location p) (event_location ev) (event_location r)
         \<and> sparse_field (set_start_datetime p) (event_start_datetime ev) (event_start_datetime r)
         \<and> sparse_field (set_end_datetime p) (event_end_datetime ev) (event_end_datetime r)
         \<and> sparse_field (set_capacity p) (event_capacity ev) (event_capacity r)
         \<and> sparse_field (set_attendees p) (event_attendees ev) (event_attendees r)
         \<and> sparse_field (set_organizer p) (event_organizer ev) (event_organizer r)
         \<and> sparse_field (set_tags p) (event_tags ev) (event_tags r)))
   \<and> (session_get event_id (event_table db) i = Some ev
       \<and> (set_id p = Some None
            \<or> (\<exists>k. set_id p = Some (Some k) \<and> k \<noteq> i
                    \<and> session_get event_id (event_table db) k \<noteq> None)) \<longrightarrow>
      update_event db i p = (Inl PersistenceError, db))"
proof -
  have absent: "update_event db i p = (Inl (HTTPException 404 ''Event not found''), db)"
    if "session_get event_id (event_table db) i = None"
    using that by (simp add: update_event_def)
  have refused: "update_event db i p = (Inl PersistenceError, db)"
    if row: "session_get event_id (event_table db) i = Some ev"
      and bad: "set_id p = Some None
            \<or> (\<exists>k. set_id p = Some (Some k) \<and> k \<noteq> i
                    \<and> session_get event_id (event_table db) k \<noteq> None)"
  proof -
    have "event_id (setattrs p ev) = None
        \<or> (\<exists>k. event_id (setattrs p ev) = Some k \<and> k \<noteq> i
               \<and> session_get event_id (event_table db) k \<noteq> None)"
      using bad by (auto simp: setattrs_def)
    then have "session_update event_id (event_table db) i (setattrs p ev) = None"
      by (rule session_update_refused)
    then show ?thesis using row by (simp add: update_event_def Let_def)
  qed
  have written: "\<exists>r db' k. update_event db i p = (Inr r, db')
         \<and> event_id r = Some k
         \<and> get_event db' k = (Inr r, db')
         \<and> news_table db' = news_table db
         \<and> (\<forall>j. j \<noteq> i \<and> j \<noteq> k \<longrightarrow>
              session_get event_id (event_table db') j = session_get event_id (event_table db) j)
         \<and> sparse_field (set_id p) (event_id ev) (event_id r)
         \<and> sparse_field (set_title p) (event_title ev) (event_title r)
         \<and> sparse_field (set_description p) (event_description ev) (event_description r)
         \<and> sparse_field (set_location p) (event_location ev) (event_location r)
         \<and> sparse_field (set_start_datetime p) (event_start_datetime ev) (event_start_datetime r)
         \<and> sparse_field (set_end_datetime p) (event_end_datetime ev) (event_end_datetime r)
         \<and> sparse_field (set_capacity p) (event_capacity ev) (event_capacity r)
         \<and> sparse_field (set_attendees p) (event_attendees ev) (event_attendees r)
         \<and> sparse_field (set_organizer p) (event_organizer ev) (event_organizer r)
         \<and> sparse_field (set_tags p) (event_tags ev) (event_tags r)"
    if row: "session_get event_id (event_table db) i = Some ev"
      and good: "set_id p = None \<or> set_id p = Some (Some i)
            \<or> (\<exists>k. set_id p = Some (Some k) \<and> session_get event_id (event_table db) k = None)"
  proof -
    have own: "event_id ev = Some i" using session_get_Some [OF row] by simp
    obtain k where key: "event_id (setattrs p ev) = Some k"
      and free: "k = i \<or> session_get event_id (event_table db) k = None"
      using good own by (auto simp: setattrs_def)
    obtain db' where "update_event db i p = (Inr (setattrs p ev), db')"
      and "get_event db' k = (Inr (setattrs p ev), db')"
      and "news_table db' = news_table db"
      and "\<forall>j. j \<noteq> i \<and> j \<noteq> k \<longrightarrow>
                 session_get event_id (event_table db') j = session_get event_id (event_table db) j"
      using update_event_commits [OF row key free] by blast
    then show ?thesis using key setattrs_fields [of p ev] by blast
  qed
  show ?thesis using absent written refused by blast
qed

theorem update_event_sparse_witness:
  "\<exists>r db'. update_event example_db 2 (blank_payload\<lparr>set_title := Some ''Open Evening''\<rparr>) = (Inr r, db')
      \<and> get_event db' 2 = (Inr r, db')
      \<and> event_title r = ''Open Evening''
      \<and> event_description r = Some ''All welcome''
      \<and> event_location r = None
      \<and> event_attendees r = Some ''a@x.edu,b@x.edu''
      \<and> event_capacity r = Some 0"
proof -
  have unset: "set_id (blank_payload\<lparr>set_title := Some ''Open Evening''\<rparr>) = None"
    by (simp add: blank_payload_def)
  obtain r db' k
    where "update_event example_db 2 (blank_payload\<lparr>set_title := Some ''Open Evening''\<rparr>) = (Inr r, db')"
      and "event_id r = Some k" and "get_event db' k = (Inr r, db')"
      and "sparse_field (set_id (blank_payload\<lparr>set_title := Some ''Open Evening''\<rparr>))
             (event_id open_event) (event_id r)"
      and "sparse_field (set_title (blank_payload\<lparr>set_title := Some ''Open Evening''\<rparr>))
             (event_title open_event) (event_title r)"
      and "sparse_field (set_description (blank_payload\<lparr>set_title := Some ''Open Evening''\<rparr>))
             (event_description open_event) (event_description r)"
      and "sparse_field (set_location (blank_payload\<lparr>set_title := Some ''Open Evening''\<rparr>))
             (event_location open_event) (event_location r)"
      and "sparse_field (set_attendees (blank_payload\<lparr>set_title := Some ''Open Evening''\<rparr>))
             (event_attendees open_event) (event_attendees r)"
      and "sparse_field (set_capacity (blank_payload\<lparr>set_title := Some ''Open Evening''\<rparr>))
             (event_capacity open_event) (event_capacity r)"
    using update_event_sparse
      [of example_db 2 "blank_payload\<lparr>set_title := Some ''Open Evening''\<rparr>" open_event]
      example_db_rows(2) unset
    by blast
  then show ?thesis
    by (simp add: sparse_field_def blank_payload_def open_event_def blank_event_def)
qed

theorem update_event_sparse_counterexample:
  "session_get event_id (event_table example_db) 1 = Some full_event
   \<and> session_get event_id (event_table example_db) 2 = Some open_event
   \<and> update_event example_db 1
        (blank_payload\<lparr>set_id := Some (Some 2), set_title := Some ''Science Night''\<rparr>)
       = (Inl PersistenceError, example_db)"
  by (simp add: example_db_rows update_event_def session_update_def setattrs_def
      blank_payload_def Let_def)

section \<open>Creating a news item\<close>

text \<open>
  Claim C8. An item submitted without an \<open>id\<close> is always created. Whenever
  \<open>create_news\<close> returns a record, that record is the one stored under its id, its
  \<open>published_at\<close> is the clock's value at the call when the item brought none (so it
  is not null), and it is the item's own value when the item brought one.
\<close>

theorem create_news_published_at:
  "(news_id item = None \<longrightarrow> (\<exists>r db'. create_news now db item = (Inr r, db')))
   \<and> (\<forall>r db'. create_news now db item = (Inr r, db') \<longrightarrow>
        (\<exists>k. news_id r = Some k \<and> get_news db' k = (Inr r, db'))
        \<and> (news_published_at item = None \<longrightarrow> news_published_at r = Some now)
        \<and> (\<forall>d. news_published_at item = Some d \<longrightarrow> news_published_at r = Some d))"
proof -
  let ?item' = "if news_published_at item = None
                then item\<lparr>news_published_at := Some now\<rparr> else item"
  have stamp: "news_published_at ?item' =
      (case news_published_at item of None \<Rightarrow> Some now | Some d \<Rightarrow> Some d)"
    by (simp split: option.splits)
  have same_id: "news_id ?item' = news_id item" by simp
  have returns: "\<exists>r db'. create_news now db item = (Inr r, db')" if "news_id item = None"
    using that by (cases "news_published_at item = None") (simp_all add: create_news_def Let_def)
  have stored: "(\<exists>k. news_id r = Some k \<and> get_news db' k = (Inr r, db'))
        \<and> news_published_at r = (case news_published_at item of None \<Rightarrow> Some now | Some d \<Rightarrow> Some d)"
    if run: "create_news now db item = (Inr r, db')" for r db'
  proof (cases "news_id item")
    case None
    let ?k = "next_rowid news_id (news_table db)"
    have r: "r = ?item'\<lparr>news_id := Some ?k\<rparr>"
      and db': "db' = db\<lparr>news_table := news_table db @ [r]\<rparr>"
      using run None
      by (cases "news_published_at item = None"; auto simp: create_news_def Let_def)+
    have key: "news_id r = Some ?k" unfolding r by simp
    have "session_get news_id (news_table db @ [r]) ?k = Some r"
      using next_rowid_fresh key by (rule session_get_append)
    then have "get_news db' ?k = (Inr r, db')"
      unfolding db' by (simp add: get_news_def)
    moreover have "news_published_at r = news_published_at ?item'" unfolding r by simp
    ultimately show ?thesis using key stamp by metis
  next
    case (Some j)
    have free: "session_get news_id (news_table db) j = None"
      and r: "r = ?item'" and db': "db' = db\<lparr>news_table := news_table db @ [r]\<rparr>"
      using run Some
      by (cases "news_published_at item = None";
          auto simp: create_news_def Let_def split: if_splits)+
    have key: "news_id r = Some j" unfolding r using Some by simp
    have "session_get news_id (news_table db @ [r]) j = Some r"
      using free key by (rule session_get_append)
    then have "get_news db' j = (Inr r, db')"
      unfolding db' by (simp add: get_news_def)
    moreover have "news_published_at r = news_published_at ?item'" unfolding r by simp
    ultimately show ?thesis using key stamp by metis
  qed
  show ?thesis using returns stored by (auto split: option.splits)
qed

theorem create_news_published_at_witness:
  "create_news (Datetime 2026 11 4 9 30 0 0) empty_db blank_news =
     (Inr (blank_news\<lparr>news_id := Some 1,
                       news_published_at := Some (Datetime 2026 11 4 9 30 0 0)\<rparr>),
      \<lparr>event_table = [],
       news_table = [blank_news\<lparr>news_id := Some 1,
                       news_published_at := Some (Datetime 2026 11 4 9 30 0 0)\<rparr>]\<rparr>)
   \<and> get_news \<lparr>event_table = [],
       news_table = [blank_news\<lparr>news_id := Some 1,
                       news_published_at := Some (Datetime 2026 11 4 9 30 0 0)\<rparr>]\<rparr> 1 =
     (Inr (blank_news\<lparr>news_id := Some 1,
                       news_published_at := Some (Datetime 2026 11 4 9 30 0 0)\<rparr>),
      \<lparr>event_table = [],
       news_table = [blank_news\<lparr>news_id := Some 1,
                       news_published_at := Some (Datetime 2026 11 4 9 30 0 0)\<rparr>]\<rparr>)
   \<and> create_news (Datetime 2026 11 4 9 30 0 0) empty_db
       (blank_news\<lparr>news_published_at := Some (Datetime 2026 9 1 8 0 0 0)\<rparr>) =
     (Inr (blank_news\<lparr>news_id := Some 1,
                       news_published_at := Some (Datetime 2026 9 1 8 0 0 0)\<rparr>),
      \<lparr>event_table = [],
       news_table = [blank_news\<lparr>news_id := Some 1,
                       news_published_at := Some (Datetime 2026 9 1 8 0 0 0)\<rparr>]\<rparr>)"
proof -
  have run1: "create_news (Datetime 2026 11 4 9 30 0 0) empty_db blank_news =
     (Inr (blank_news\<lparr>news_id := Some 1,
                       news_published_at := Some (Datetime 2026 11 4 9 30 0 0)\<rparr>),
      \<lparr>event_table = [],
       news_table = [blank_news\<lparr>news_id := Some 1,
                       news_published_at := Some (Datetime 2026 11 4 9 30 0 0)\<rparr>]\<rparr>)"
    by (simp add: create_news_def empty_db_def blank_news_def next_rowid_def
        List.map_filter_simps Let_def)
  have run2: "create_news (Datetime 2026 11 4 9 30 0 0) empty_db
       (blank_news\<lparr>news_published_at := Some (Datetime 2026 9 1 8 0 0 0)\<rparr>) =
     (Inr (blank_news\<lparr>news_id := Some 1,
                       news_published_at := Some (Datetime 2026 9 1 8 0 0 0)\<rparr>),
      \<lparr>event_table = [],
       news_table = [blank_news\<lparr>news_id := Some 1,
                       news_published_at := Some (Datetime 2026 9 1 8 0 0 0)\<rparr>]\<rparr>)"
    by (simp add: create_news_def empty_db_def blank_news_def next_rowid_def
        List.map_filter_simps Let_def)
  show ?thesis
    using create_news_published_at [of blank_news "Datetime 2026 11 4 9 30 0 0" empty_db] run1 run2
    by (simp add: blank_news_def)
qed

end
